theory Spec2Isabelle
  imports Complex_Main
begin

section \<open>Data model\<close>

text \<open>
  A pandas data frame as the code uses it: row labels (\<open>index\<close>), column labels
  (\<open>columns\<close>) and the rows of values, one row per row label and one value per
  column label in each row. An expression matrix has genes as rows and cells as columns.
\<close>

record 'a frame =
  index :: "string list"
  columns :: "string list"
  vals :: "'a list list"

text \<open>
  The exceptions the code can raise, as values. \<open>PyException\<close> is the plain
  \<open>Exception(msg)\<close> the code raises itself; the others are raised by the interpreter
  or by a library the code calls.
\<close>

datatype error =
    PyException string
  | AttributeError string
  | NameError string
  | KeyError string
  | ValueError string
  | TypeError string
  | LinAlgError

text \<open>
  What \<open>type(x)\<close> returns is a class object; \<open>None\<close> is an object of its own.
  A field that holds either \<open>None\<close> or a frame is a \<open>frame option\<close>.
\<close>

datatype pyclass = NoneType | DataFrameClass

datatype pyref = NoneObj | ClassObj pyclass

fun py_type :: "'a frame option \<Rightarrow> pyref" where
  "py_type None = ClassObj NoneType"
| "py_type (Some f) = ClassObj DataFrameClass"

text \<open>The result of a principal component analysis, stored under \<open>dr.pca\<close>.\<close>

record pca_result =
  comp :: "real frame"
  contr :: "real frame"
  pca_method :: string

text \<open>
  One entry of \<open>norm_data\<close>: the normalized matrix (\<open>item['data']\<close>), the highly
  variable genes (\<open>item['hvg']['genes']\<close>) and the slot \<open>item['dr']['pca']\<close>.
\<close>

record norm_item =
  data :: "real frame"
  hvg_genes :: "string list"
  dr_pca :: "pca_result option"

text \<open>
  The fields of the dataset object that the code reads or writes. \<open>norm_data\<close> is a
  dictionary in insertion order; \<open>assays\<close> is the processing history.
\<close>

record dataset =
  exp_mat :: "int frame"
  exp_mito :: "int frame option"
  exp_ERCC :: "int frame option"
  low_quality_cells :: "string list option"
  norm_data :: "(string \<times> norm_item) list"
  assays :: "(string \<times> string) list"

section \<open>Library routines\<close>

text \<open>
  The routines of numpy, scipy, sklearn and \<open>irlbpy\<close> that the code calls are
  parameters of the model, one field each:
  \<^item> \<open>np_sqrt\<close> and \<open>np_log\<close>: \<open>np.sqrt\<close> and \<open>np.log\<close> on one number;
  \<^item> \<open>mcd_mahalanobis seed qc_mat\<close>:
    \<open>MinCovDet(random_state=seed).fit(qc_mat).mahalanobis(qc_mat)\<close>;
  \<^item> \<open>sklearn_scale\<close>: \<open>scale(X, axis=0, with_mean=True, with_std=True)\<close>, which
    may raise;
  \<^item> \<open>lanczos\<close>: \<open>irlbpy.lanczos(inp, nval, maxit, seed)\<close>, which returns the arrays
    \<open>U\<close>, \<open>s\<close>, \<open>V\<close> or raises;
  \<^item> \<open>linalg_svd\<close>: \<open>scipy.linalg.svd\<close>, which returns \<open>(U, d, Vh)\<close> or raises
    (\<open>None\<close>).
  Numbers are modelled as reals.
\<close>

record lanczos_result =
  lanc_U :: "real list list"
  lanc_s :: "real list"
  lanc_V :: "real list list"

record externals =
  np_sqrt :: "real \<Rightarrow> real"
  np_log :: "real \<Rightarrow> real"
  mcd_mahalanobis :: "int \<Rightarrow> real list list \<Rightarrow> real list"
  sklearn_scale :: "real list list \<Rightarrow> error + real list list"
  lanczos :: "real frame \<Rightarrow> int \<Rightarrow> nat \<Rightarrow> int option \<Rightarrow> error + lanczos_result"
  linalg_svd :: "real list list \<Rightarrow> (real list list \<times> real list \<times> real list list) option"

section \<open>Frame operations\<close>

text \<open>Column \<open>j\<close> of a list of rows.\<close>

definition col :: "nat \<Rightarrow> 'a list list \<Rightarrow> 'a list" where
  "col j m = map (\<lambda>r. r ! j) m"

text \<open>
  The counts are 64-bit integers, and pandas adds them in 64 bits: a sum that leaves the
  range wraps around. \<open>int64 x\<close> is the signed 64-bit value of \<open>x\<close>.
\<close>

definition int64 :: "int \<Rightarrow> int" where
  "int64 x = (x + 9223372036854775808) mod 18446744073709551616 - 9223372036854775808"

text \<open>\<open>df.sum(axis=0)\<close>: one sum per column.\<close>

definition col_sums :: "int frame \<Rightarrow> int list" where
  "col_sums f = map (\<lambda>j. int64 (sum_list (col j (vals f)))) [0..<length (columns f)]"

text \<open>Number of \<open>True\<close> in a boolean vector (\<open>np.sum\<close> of a mask).\<close>

definition count_true :: "bool list \<Rightarrow> nat" where
  "count_true bs = length (filter (\<lambda>b. b) bs)"

text \<open>Boolean indexing \<open>xs[mask]\<close>: the elements at the positions where the mask holds.\<close>

definition mask_list :: "bool list \<Rightarrow> 'a list \<Rightarrow> 'a list" where
  "mask_list bs xs = map snd (filter fst (zip bs xs))"

text \<open>\<open>df[mask]\<close> with a boolean row mask.\<close>

definition mask_rows :: "'a frame \<Rightarrow> bool list \<Rightarrow> 'a frame" where
  "mask_rows f bs = f\<lparr>index := mask_list bs (index f), vals := mask_list bs (vals f)\<rparr>"

text \<open>
  Selection by labels. For each requested label pandas takes every position that carries
  it, in order, so a label that occurs twice is taken twice.
\<close>

definition positions_of :: "string list \<Rightarrow> string \<Rightarrow> nat list" where
  "positions_of labs l = filter (\<lambda>j. labs ! j = l) [0..<length labs]"

definition label_positions :: "string list \<Rightarrow> string list \<Rightarrow> nat list" where
  "label_positions labs ls = concat (map (positions_of labs) ls)"

text \<open>\<open>df[labels]\<close>: columns by label.\<close>

definition select_columns :: "'a frame \<Rightarrow> string list \<Rightarrow> 'a frame" where
  "select_columns f ls =
     (let js = label_positions (columns f) ls
      in f\<lparr>columns := map (\<lambda>j. columns f ! j) js,
            vals := map (\<lambda>r. map (\<lambda>j. r ! j) js) (vals f)\<rparr>)"

text \<open>\<open>df.loc[labels]\<close>: rows by label.\<close>

definition loc_rows :: "'a frame \<Rightarrow> string list \<Rightarrow> 'a frame" where
  "loc_rows f ls =
     (let js = label_positions (index f) ls
      in f\<lparr>index := map (\<lambda>j. index f ! j) js,
            vals := map (\<lambda>j. vals f ! j) js\<rparr>)"

section \<open>Preprocessing (preproc.py)\<close>

subsection \<open>simple_filter\<close>

text \<open>
  \<open>minexpgenes\<close> is an integer (a number of cells) or a float (a fraction of cells);
  the code tells them apart by \<open>type(minexpgenes) == int\<close>. The float is modelled as a
  real number.
\<close>

datatype threshold = IntT int | FloatT real

fun threshold_positive :: "threshold \<Rightarrow> bool" where
  "threshold_positive (IntT n) = (n > 0)"
| "threshold_positive (FloatT t) = (t > 0)"

text \<open>\<open>sum(x > 0)\<close> for one row \<open>x\<close>.\<close>

definition n_expressed :: "int list \<Rightarrow> nat" where
  "n_expressed x = length (filter (\<lambda>v. v > 0) x)"

text \<open>
  The messages printed under \<open>verbose\<close> are output only and are left out; the counts
  of removed genes (lines 39 and 45) are formatted whether or not they are printed.

  When the cell filter leaves no column, \<open>apply\<close> does not go through the rows. It
  tries the function on an empty series: the integer branch's \<open>sum(x > 0)\<close> gives 0,
  which becomes the count of every gene, as for rows without values here. The float
  branch's \<open>sum(x > 0)/len(x)\<close> divides by zero; \<open>apply\<close> swallows that and returns
  the frame itself, and formatting the count on line 45 then raises \<open>TypeError\<close>.
\<close>

definition simple_filter :: "dataset \<Rightarrow> int \<Rightarrow> threshold \<Rightarrow> error + dataset" where
  "simple_filter obj minreads minexpgenes =
     (let exp_mat0 = exp_mat obj;
          cell_counts = col_sums exp_mat0;
          r = map (\<lambda>c. c > minreads) cell_counts;
          exp_mat1 = select_columns exp_mat0 (mask_list r (columns exp_mat0))
      in if threshold_positive minexpgenes then
           (case minexpgenes of
              IntT n \<Rightarrow>
                (let genes_expressed = map (\<lambda>x. int (n_expressed x)) (vals exp_mat1);
                     target_genes =
                       mask_list (map (\<lambda>g. g > n) genes_expressed) (index exp_mat1)
                 in Inr (obj\<lparr>exp_mat :=
                           mask_rows exp_mat1
                             (map (\<lambda>i. i \<in> set target_genes) (index exp_mat1))\<rparr>))
            | FloatT t \<Rightarrow>
                (if columns exp_mat1 = [] then
                   Inl (TypeError ''unsupported format string passed to Series.__format__'')
                 else
                   (let genes_expressed =
                          map (\<lambda>x. real (n_expressed x) / real (length x)) (vals exp_mat1)
                    in Inr (obj\<lparr>exp_mat :=
                              mask_rows exp_mat1 (map (\<lambda>g. g > t) genes_expressed)\<rparr>))))
         else Inr (obj\<lparr>exp_mat := exp_mat1\<rparr>))"

subsection \<open>remove_empty\<close>

text \<open>
  \<open>data_zero.sum(axis=0)\<close> counts the zeros of each column (one count per cell) and
  \<open>data_zero.sum(axis=1)\<close> the zeros of each row (one count per gene). The code
  compares the per-cell counts with \<open>shape[1]\<close> and the per-gene counts with
  \<open>shape[0]\<close>.
\<close>

definition remove_empty :: "dataset \<Rightarrow> dataset" where
  "remove_empty obj =
     (let exp_mat0 = exp_mat obj;
          data_zero = map (map (\<lambda>v. v = 0)) (vals exp_mat0);
          cells = map (\<lambda>j. count_true (col j data_zero)) [0..<length (columns exp_mat0)];
          genes = map count_true data_zero;
          total_genes = length (index exp_mat0);
          total_cells = length (columns exp_mat0);
          exp_mat1 =
            (if count_true (map (\<lambda>c. c = total_cells) cells) > 0 then
               (let r = map (\<lambda>c. \<not> c = total_cells) cells
                in select_columns exp_mat0 (mask_list r (columns exp_mat0)))
             else exp_mat0);
          exp_mat2 =
            (if count_true (map (\<lambda>g. g = total_genes) genes) > 0 then
               (let r = map (\<lambda>g. \<not> g = total_genes) genes
                in loc_rows exp_mat1 (mask_list r (index exp_mat1)))
             else exp_mat1)
      in obj\<lparr>exp_mat := exp_mat2\<rparr>)"

subsection \<open>detect_mito and detect_ERCC_spikes\<close>

text \<open>
  The regular expression is matched by the library (\<open>index.str.contains\<close>); the
  model takes the match as a predicate on row labels. \<open>detect_mito_split\<close> is the body
  of the \<open>if\<close> of \<open>detect_mito\<close>: the locals \<open>exp_mito\<close> and \<open>exp_mat\<close>
  when a label matches, nothing otherwise.
\<close>

definition detect_mito_split ::
    "(string \<Rightarrow> bool) \<Rightarrow> 'a frame \<Rightarrow> ('a frame \<times> 'a frame) option" where
  "detect_mito_split mito_pattern exp_mat0 =
     (let mt_count = map mito_pattern (index exp_mat0)
      in if count_true mt_count > 0 then
           (let exp_mito1 = loc_rows exp_mat0 (mask_list mt_count (index exp_mat0));
                exp_mat1 = loc_rows exp_mat0 (mask_list (map Not mt_count) (index exp_mat0))
            in Some (exp_mito1, exp_mat1))
         else None)"

definition detect_mito :: "(string \<Rightarrow> bool) \<Rightarrow> dataset \<Rightarrow> dataset" where
  "detect_mito mito_pattern obj =
     (case detect_mito_split mito_pattern (exp_mat obj) of
        Some (exp_mito1, exp_mat1) \<Rightarrow> obj\<lparr>exp_mat := exp_mat1, exp_mito := Some exp_mito1\<rparr>
      | None \<Rightarrow> obj)"

text \<open>
  \<open>detect_ERCC_spikes_locals\<close> gives the two locals \<open>exp_ERCC\<close> and \<open>exp_mat\<close>
  of \<open>detect_ERCC_spikes\<close>; the function assigns \<open>obj.exp_mat\<close> and returns the
  object.
\<close>

definition detect_ERCC_spikes_locals ::
    "(string \<Rightarrow> bool) \<Rightarrow> 'a frame \<Rightarrow> 'a frame \<times> 'a frame" where
  "detect_ERCC_spikes_locals ERCC_pattern exp_mat0 =
     (let s = map ERCC_pattern (index exp_mat0);
          exp_ERCC1 = mask_rows exp_mat0 s;
          exp_mat1 = mask_rows exp_mat0 (map Not s)
      in (exp_ERCC1, exp_mat1))"

definition detect_ERCC_spikes :: "(string \<Rightarrow> bool) \<Rightarrow> dataset \<Rightarrow> dataset" where
  "detect_ERCC_spikes ERCC_pattern obj =
     (case detect_ERCC_spikes_locals ERCC_pattern (exp_mat obj) of
        (exp_ERCC1, exp_mat1) \<Rightarrow> obj\<lparr>exp_mat := exp_mat1\<rparr>)"

text \<open>
  The default patterns as predicates on a label. \<open>^mt-\<close> is searched without regard
  to case: the label starts with \<open>mt-\<close> in any case. \<open>^ERCC[_-]\S+$\<close>: the label is
  \<open>ERCC\<close>, then \<open>_\<close> or \<open>-\<close>, then one or more characters that are not white
  space, up to the end (or up to a final newline). Labels are taken to be ASCII.
\<close>

definition ascii_lower :: "char \<Rightarrow> char" where
  "ascii_lower c =
     (let n = (of_char c :: nat) in if 65 \<le> n \<and> n \<le> 90 then char_of (n + 32) else c)"

definition mito_default :: "string \<Rightarrow> bool" where
  "mito_default l = (map ascii_lower (take 3 l) = ''mt-'')"

definition py_space :: "char \<Rightarrow> bool" where
  "py_space c = ((of_char c :: nat) \<in> set [9, 10, 11, 12, 13, 28, 29, 30, 31, 32])"

definition ERCC_default :: "string \<Rightarrow> bool" where
  "ERCC_default l =
     (take 4 l = ''ERCC'' \<and>
      (case drop 4 l of
         [] \<Rightarrow> False
       | sep # rest \<Rightarrow>
           (sep = CHR ''_'' \<or> sep = CHR ''-'') \<and>
           (let body = (if rest \<noteq> [] \<and> last rest = CHR 0x0A then butlast rest else rest)
            in body \<noteq> [] \<and> list_all (\<lambda>c. \<not> py_space c) body)))"

subsection \<open>auto_clean\<close>

text \<open>
  The names bound at module level in preproc.py: its imports (\<open>numpy\<close> as \<open>np\<close>,
  \<open>warnings\<close>) and its own functions. A global name that is not bound (and is no
  builtin) raises \<open>NameError\<close> when it is read.
\<close>

definition preproc_globals :: "string list" where
  "preproc_globals =
     [''np'', ''warn'', ''warnings'', ''simple_filter'', ''remove_empty'', ''detect_mito'',
      ''detect_ERCC_spikes'', ''auto_clean'']"

text \<open>
  \<open>x.sum(axis=0)\<close> on a field that holds \<open>None\<close> raises \<open>AttributeError\<close>
  (the error's argument is the attribute's name).
\<close>

definition frame_sum :: "int frame option \<Rightarrow> error + int list" where
  "frame_sum x =
     (case x of None \<Rightarrow> Inl (AttributeError ''sum'') | Some f \<Rightarrow> Inr (col_sums f))"

text \<open>
  \<open>a / b * 100\<close> on two series, cell by cell. The numbers are modelled as reals; the
  frames are taken to carry the same cells in the same order.
\<close>

definition percent :: "int list \<Rightarrow> int list \<Rightarrow> real list" where
  "percent xs totals = map (\<lambda>(x, t). real_of_int x / real_of_int t * 100) (zip xs totals)"

definition np_mean :: "real list \<Rightarrow> real" where
  "np_mean xs = sum_list xs / real (length xs)"

definition np_std :: "externals \<Rightarrow> real list \<Rightarrow> real" where
  "np_std ext xs = np_sqrt ext (np_mean (map (\<lambda>x. (x - np_mean xs) * (x - np_mean xs)) xs))"

text \<open>\<open>data.index.intersection(rRNA_genes)\<close>: the row labels that are in the list.\<close>

definition index_intersection :: "string list \<Rightarrow> string list \<Rightarrow> string list" where
  "index_intersection idx ls = remdups (filter (\<lambda>g. g \<in> set ls) idx)"

text \<open>
  \<open>auto_clean\<close>, statement by statement. \<open>globals\<close> is the module's namespace.
  In \<open>pd.DataFrame({...})\<close> the callee is evaluated before its argument, so \<open>pd\<close>
  is read before the table is built.
\<close>

definition auto_clean ::
    "string list \<Rightarrow> externals \<Rightarrow> dataset \<Rightarrow> string list \<Rightarrow> real \<Rightarrow> int \<Rightarrow>
     error + dataset" where
  "auto_clean globals ext self rRNA_genes sd_thres seed =
     (let data = exp_mat self;
          data_mt = exp_mito self;
          data_ERCC = exp_ERCC self
      in if py_type data_ERCC = NoneObj then Inl (PyException ''auto_clean() needs ERCC spikes'')
         else if py_type data_mt = NoneObj then
           Inl (PyException ''No mitochondrial genes found. Run detect_mito() first.'')
         else
           (let reads_per_cell = col_sums data;
                no_genes_det =
                  map (\<lambda>j. count_true (map (\<lambda>v. v > 0) (col j (vals data))))
                    [0..<length (columns data)];
                data_rRNA = loc_rows data (index_intersection (index data) rRNA_genes);
                perc_rRNA = percent (col_sums data_rRNA) reads_per_cell
            in case frame_sum data_mt of
                 Inl e \<Rightarrow> Inl e
               | Inr mt_sums \<Rightarrow>
                   (let perc_mt = percent mt_sums reads_per_cell
                    in case frame_sum data_ERCC of
                         Inl e \<Rightarrow> Inl e
                       | Inr ercc_sums \<Rightarrow>
                           (let perc_ERCC = percent ercc_sums reads_per_cell
                            in if ''pd'' \<notin> set globals then Inl (NameError ''pd'')
                               else
                                 (let qc_mat =
                                        map (\<lambda>j. [np_log ext (real_of_int (reads_per_cell ! j)),
                                                   real (no_genes_det ! j),
                                                   perc_rRNA ! j, perc_mt ! j, perc_ERCC ! j])
                                          [0..<length (columns data)]
                                  in if ''MinCovDet'' \<notin> set globals then
                                       Inl (NameError ''MinCovDet'')
                                     else
                                       (let mahal_dists = mcd_mahalanobis ext seed qc_mat;
                                            MD_mean = np_mean mahal_dists;
                                            MD_sd = np_std ext mahal_dists;
                                            thres_lower = MD_mean - MD_sd * sd_thres;
                                            thres_upper = MD_mean + MD_sd * sd_thres;
                                            res = map (\<lambda>d. d < thres_lower \<or> d > thres_upper)
                                                    mahal_dists
                                        in Inr (self\<lparr>low_quality_cells :=
                                                  Some (mask_list res (columns data))\<rparr>)))))))"

section \<open>Dimensional reduction (dr.py)\<close>

subsection \<open>Arrays\<close>

text \<open>
  A two-dimensional array is the list of its rows. Its number of columns is read off the
  first row, so an array without rows has no columns.
\<close>

definition ncols :: "'a list list \<Rightarrow> nat" where
  "ncols m = (case m of [] \<Rightarrow> 0 | r # _ \<Rightarrow> length r)"

definition np_transpose :: "'a list list \<Rightarrow> 'a list list" where
  "np_transpose m = map (\<lambda>j. col j m) [0..<ncols m]"

definition dot :: "real list \<Rightarrow> real list \<Rightarrow> real" where
  "dot xs ys = sum_list (map (\<lambda>(x, y). x * y) (zip xs ys))"

definition matmul :: "real list list \<Rightarrow> real list list \<Rightarrow> real list list" where
  "matmul a b = map (\<lambda>row. map (\<lambda>j. dot row (col j b)) [0..<ncols b]) a"

definition np_diag :: "real list \<Rightarrow> real list list" where
  "np_diag s = map (\<lambda>i. map (\<lambda>j. if i = j then s ! i else 0) [0..<length s]) [0..<length s]"

text \<open>
  \<open>np.dot(a, b)\<close> raises when the inner dimensions differ. A list without rows does not
  record how many columns the array has, so nothing is checked for it.
\<close>

definition np_dot :: "real list list \<Rightarrow> real list list \<Rightarrow> error + real list list" where
  "np_dot a b =
     (if a \<noteq> [] \<and> ncols a \<noteq> length b then Inl (ValueError ''shapes not aligned'')
      else Inr (matmul a b))"

text \<open>The slice \<open>xs[0:k]\<close>; a negative \<open>k\<close> counts from the end.\<close>

definition py_take :: "int \<Rightarrow> 'a list \<Rightarrow> 'a list" where
  "py_take k xs = (if 0 \<le> k then take (nat k) xs else take (length xs - nat (- k)) xs)"

text \<open>\<open>v[:, 0:k]\<close> on an array.\<close>

definition slice_cols :: "int \<Rightarrow> 'a list list \<Rightarrow> 'a list list" where
  "slice_cols k m = map (py_take k) m"

text \<open>The length of \<open>xs[0:k]\<close> for a list of length \<open>n\<close>.\<close>

definition py_take_len :: "int \<Rightarrow> nat \<Rightarrow> nat" where
  "py_take_len k n = (if 0 \<le> k then min (nat k) n else n - nat (- k))"

subsection \<open>Frames\<close>

text \<open>The default labels \<open>0, 1, ..., n - 1\<close> of a frame built without labels, in decimal.\<close>

fun string_of_nat :: "nat \<Rightarrow> string" where
  "string_of_nat n =
     (if n < 10 then [''0123456789'' ! n]
      else string_of_nat (n div 10) @ [''0123456789'' ! (n mod 10)])"

definition range_index :: "nat \<Rightarrow> string list" where
  "range_index n = map string_of_nat [0..<n]"

text \<open>\<open>pd.DataFrame(arr)\<close>: default row and column labels.\<close>

definition frame_of_array :: "'a list list \<Rightarrow> 'a frame" where
  "frame_of_array arr =
     \<lparr>index = range_index (length arr), columns = range_index (ncols arr), vals = arr\<rparr>"

text \<open>\<open>pd.DataFrame(arr, index=labels)\<close> raises when the labels do not fit the rows.\<close>

definition frame_with_index :: "'a list list \<Rightarrow> string list \<Rightarrow> error + 'a frame" where
  "frame_with_index arr labels =
     (if length labels \<noteq> length arr then Inl (ValueError ''Shape of passed values'')
      else Inr \<lparr>index = labels, columns = range_index (ncols arr), vals = arr\<rparr>)"

text \<open>\<open>df.transpose()\<close>.\<close>

definition transpose_frame :: "'a frame \<Rightarrow> 'a frame" where
  "transpose_frame f =
     \<lparr>index = columns f, columns = index f,
      vals = map (\<lambda>j. col j (vals f)) [0..<length (columns f)]\<rparr>"

text \<open>
  \<open>df.dot(v)\<close> with an array \<open>v\<close>: raises when the frame's number of columns is not the
  array's number of rows; the result keeps the row labels and has default column labels.
\<close>

definition frame_dot :: "real frame \<Rightarrow> real list list \<Rightarrow> error + real frame" where
  "frame_dot f v =
     (if length (columns f) \<noteq> length v then Inl (ValueError ''Dot product shape mismatch'')
      else Inr \<lparr>index = index f, columns = range_index (ncols v), vals = matmul (vals f) v\<rparr>)"

text \<open>\<open>df.iloc[:, 0:k]\<close>.\<close>

definition iloc_cols :: "int \<Rightarrow> 'a frame \<Rightarrow> 'a frame" where
  "iloc_cols k f = f\<lparr>columns := py_take k (columns f), vals := slice_cols k (vals f)\<rparr>"

subsection \<open>irlb\<close>

definition irlb ::
    "externals \<Rightarrow> real frame \<Rightarrow> int \<Rightarrow> int option \<Rightarrow> error + (real frame \<times> real frame)" where
  "irlb ext data_norm ncomp seed =
     (let inp = data_norm
      in case lanczos ext inp ncomp 1000 seed of
           Inl e \<Rightarrow> Inl e
         | Inr lanc \<Rightarrow>
             (case np_dot (lanc_V lanc) (np_diag (lanc_s lanc)) of
                Inl e \<Rightarrow> Inl e
              | Inr comp0 \<Rightarrow>
                  (let comp1 = frame_of_array comp0
                   in case frame_with_index (map (map abs) (lanc_U lanc)) (index inp) of
                        Inl e \<Rightarrow> Inl e
                      | Inr contr1 \<Rightarrow> Inr (comp1, contr1))))"

subsection \<open>svd\<close>

text \<open>The local \<open>s_d\<close> is computed as in the source and not used afterwards.\<close>

definition svd :: "externals \<Rightarrow> real frame \<Rightarrow> int \<Rightarrow> error + (real frame \<times> real frame)" where
  "svd ext data_norm ncomp =
     (let inp = transpose_frame data_norm
      in case linalg_svd ext (vals inp) of
           None \<Rightarrow> Inl LinAlgError
         | Some s \<Rightarrow>
             (let v = np_transpose (snd (snd s));
                  d = fst (snd s);
                  s_d = map (\<lambda>x. x / np_sqrt ext (real_of_int (int (length (index inp)) - 1))) d
              in case frame_dot inp v of
                   Inl e \<Rightarrow> Inl e
                 | Inr retx0 \<Rightarrow>
                     (let retx = iloc_cols ncomp retx0;
                          comp1 = retx
                      in case frame_with_index (map (map abs) (slice_cols ncomp v)) (columns inp) of
                           Inl e \<Rightarrow> Inl e
                         | Inr contr1 \<Rightarrow> Inr (comp1, contr1))))"

subsection \<open>pca\<close>

text \<open>
  Modelled from the spec: \<open>set_assay\<close> is a method of the dataset class, which is not
  among the sources; it records that a step ran, with its method, at the end of the
  processing history.
\<close>

definition set_assay :: "dataset \<Rightarrow> string \<Rightarrow> string \<Rightarrow> dataset" where
  "set_assay obj step m = obj\<lparr>assays := assays obj @ [(step, m)]\<rparr>"

text \<open>\<open>d[k] = v\<close> on a dictionary that has the key.\<close>

definition dict_set :: "string \<Rightarrow> 'v \<Rightarrow> (string \<times> 'v) list \<Rightarrow> (string \<times> 'v) list" where
  "dict_set k v d = map (\<lambda>(k', v'). if k' = k then (k', v) else (k', v')) d"

text \<open>The \<open>if scale:\<close> block: it binds the local \<open>d_scaled\<close>.\<close>

definition scale_block :: "externals \<Rightarrow> real frame \<Rightarrow> error + real frame" where
  "scale_block ext data0 =
     (case sklearn_scale ext (vals (transpose_frame data0)) of
        Inl e \<Rightarrow> Inl e
      | Inr d_scaled \<Rightarrow> frame_with_index (np_transpose d_scaled) (index data0))"

text \<open>
  One pass of the loop \<open>for k in targets\<close>. The local \<open>d_scaled\<close> is bound when
  \<open>scale\<close> holds; the reduction is called on \<open>data\<close>.
\<close>

definition pca_target ::
    "externals \<Rightarrow> string \<Rightarrow> int \<Rightarrow> bool \<Rightarrow> bool \<Rightarrow> int option \<Rightarrow> string \<Rightarrow> dataset \<Rightarrow>
     error + dataset" where
  "pca_target ext meth ncomp allgenes scale seed k obj =
     (case map_of (norm_data obj) k of
        None \<Rightarrow> Inl (KeyError k)
      | Some item \<Rightarrow>
          (let data0 = data item;
               data1 =
                 (if \<not> allgenes then
                    mask_rows data0 (map (\<lambda>i. i \<in> set (hvg_genes item)) (index data0))
                  else data0)
           in case (if scale then map_sum id Some (scale_block ext data1)
                    else Inr None) of
                Inl e \<Rightarrow> Inl e
              | Inr d_scaled \<Rightarrow>
                  (case (if meth = ''irlb'' then irlb ext data1 ncomp seed
                         else if meth = ''svd'' then svd ext data1 ncomp
                         else Inl (PyException
                           ''Unkown PCA method spefified. Valid choices are: irlb and svd'')) of
                     Inl e \<Rightarrow> Inl e
                   | Inr (comp1, contr1) \<Rightarrow>
                       Inr (set_assay
                             (obj\<lparr>norm_data :=
                                 dict_set k
                                   (item\<lparr>dr_pca :=
                                       Some \<lparr>comp = comp1, contr = contr1, pca_method = meth\<rparr>\<rparr>)
                                   (norm_data obj)\<rparr>)
                             ''pca'' meth))))"

text \<open>The loop: the targets in order, stopping at the first exception.\<close>

fun run_targets ::
    "(string \<Rightarrow> dataset \<Rightarrow> error + dataset) \<Rightarrow> string list \<Rightarrow> dataset \<Rightarrow> error + dataset" where
  "run_targets step [] obj = Inr obj"
| "run_targets step (k # ks) obj =
     (case step k obj of Inl e \<Rightarrow> Inl e | Inr obj' \<Rightarrow> run_targets step ks obj')"

text \<open>
  \<open>name\<close> is \<open>None\<close> or a string; with no name (or the empty one) every normalization
  is a target, otherwise \<open>obj.norm_data[name]\<close> is looked up.
\<close>

definition pca ::
    "externals \<Rightarrow> dataset \<Rightarrow> string \<Rightarrow> string option \<Rightarrow> int \<Rightarrow> bool \<Rightarrow> bool \<Rightarrow> int option \<Rightarrow>
     error + dataset" where
  "pca ext obj meth name ncomp allgenes scale seed =
     (if norm_data obj = [] then
        Inl (PyException
          (''Run normalization first before running pca. See here: '' @
           ''https://oscar-franzen.github.io/adobo/adobo.html#adobo.normalize.norm''))
      else
        (case (case name of
                 None \<Rightarrow> Inr (map fst (norm_data obj))
               | Some n \<Rightarrow>
                   (if n = [] then Inr (map fst (norm_data obj))
                    else (case map_of (norm_data obj) n of
                            None \<Rightarrow> Inl (KeyError n)
                          | Some item \<Rightarrow> Inr [n]))) of
           Inl e \<Rightarrow> Inl e
         | Inr targets \<Rightarrow>
             run_targets (pca_target ext meth ncomp allgenes scale seed) targets obj))"

section \<open>Concrete inputs\<close>

text \<open>A 4-gene by 5-cell count matrix whose third cell has no reads.\<close>

definition counts_4x5 :: "int frame" where
  "counts_4x5 =
     \<lparr>index = [''g1'', ''g2'', ''g3'', ''g4''],
      columns = [''c1'', ''c2'', ''c3'', ''c4'', ''c5''],
      vals = [[1, 2, 0, 3, 4], [2, 1, 0, 1, 1], [5, 1, 0, 2, 2], [1, 1, 0, 1, 3]]\<rparr>"

definition dataset_of :: "int frame \<Rightarrow> dataset" where
  "dataset_of m =
     \<lparr>exp_mat = m, exp_mito = None, exp_ERCC = None, low_quality_cells = None,
      norm_data = [], assays = []\<rparr>"

text \<open>Two genes, the second expressed in no cell.\<close>

definition counts_silent_gene :: "int frame" where
  "counts_silent_gene =
     \<lparr>index = [''g1'', ''g2''], columns = [''c1'', ''c2''], vals = [[1, 2], [0, 0]]\<rparr>"

text \<open>The genes of the mitochondrial scenario, and a matrix with one ERCC spike.\<close>

definition counts_mito :: "int frame" where
  "counts_mito =
     \<lparr>index = [''mt-Co1'', ''mt-Nd1'', ''Actb'', ''Gapdh''], columns = [''c1'', ''c2''],
      vals = [[1, 2], [3, 4], [5, 6], [7, 8]]\<rparr>"

definition counts_spike :: "int frame" where
  "counts_spike =
     \<lparr>index = [''ERCC-00002'', ''Actb''], columns = [''c1'', ''c2''],
      vals = [[1, 2], [5, 6]]\<rparr>"

text \<open>
  Two normalized matrices: two genes in one cell, and one gene in two cells. \<open>svd_table\<close>
  gives a singular value decomposition \<open>(U, d, Vh)\<close> of their transposes: of
  \<open>[[3, 4]]\<close> with \<open>d = [5]\<close> (first singular vectors negative, as the library
  returns them), and of \<open>[[1], [3]]\<close> with \<open>d = [sqrt 10]\<close>.
\<close>

definition norm_2x1 :: "real frame" where
  "norm_2x1 = \<lparr>index = [''g1'', ''g2''], columns = [''c1''], vals = [[3], [4]]\<rparr>"

definition norm_1x2 :: "real frame" where
  "norm_1x2 = \<lparr>index = [''g1''], columns = [''c1'', ''c2''], vals = [[1, 3]]\<rparr>"

definition svd_table ::
    "real list list \<Rightarrow> (real list list \<times> real list \<times> real list list) option" where
  "svd_table m =
     (if m = [[3, 4]] then
        Some ([[- 1]], [5], [[- (3 / 5), - (4 / 5)], [- (4 / 5), 3 / 5]])
      else if m = [[1], [3]] then
        Some ([[1 / sqrt 10, - (3 / sqrt 10)], [3 / sqrt 10, 1 / sqrt 10]], [sqrt 10], [[1]])
      else None)"

text \<open>
  Column standardization as the library does it: each column minus its mean, divided by
  its (population) standard deviation, a zero deviation counting as one.
\<close>

definition standardize_column :: "externals \<Rightarrow> real list \<Rightarrow> real list" where
  "standardize_column ext c =
     (let m = np_mean c; sd = np_std ext c
      in map (\<lambda>x. (x - m) / (if sd = 0 then 1 else sd)) c)"

definition standardize :: "externals \<Rightarrow> real list list \<Rightarrow> error + real list list" where
  "standardize ext x = Inr (np_transpose (map (standardize_column ext) (np_transpose x)))"

text \<open>
  \<open>lanczos_table\<close> gives the leading singular triplet of \<open>[[3], [4]]\<close> when one
  component is asked for, and raises on every other call.
\<close>

definition lanczos_table ::
    "real frame \<Rightarrow> int \<Rightarrow> nat \<Rightarrow> int option \<Rightarrow> error + lanczos_result" where
  "lanczos_table inp nval maxit seed =
     (if vals inp = [[3], [4]] \<and> nval = 1 then
        Inr \<lparr>lanc_U = [[3 / 5], [4 / 5]], lanc_s = [5], lanc_V = [[1]]\<rparr>
      else Inl (ValueError ''nval''))"

text \<open>
  Library routines for the examples: the exact square root and logarithm, the
  standardization above and the two tables. The examples do not call the covariance
  estimator.
\<close>

definition exact_numpy :: externals where
  "exact_numpy =
     \<lparr>np_sqrt = sqrt, np_log = ln,
      mcd_mahalanobis = (\<lambda>seed qc_mat. map (\<lambda>r. 0) qc_mat),
      sklearn_scale = Inr,
      lanczos = lanczos_table,
      linalg_svd = svd_table\<rparr>"

definition example_externals :: externals where
  "example_externals = exact_numpy\<lparr>sklearn_scale := standardize exact_numpy\<rparr>"

definition dataset_norm :: "real frame \<Rightarrow> dataset" where
  "dataset_norm m =
     \<lparr>exp_mat = \<lparr>index = [], columns = [], vals = []\<rparr>, exp_mito = None, exp_ERCC = None,
      low_quality_cells = None,
      norm_data = [(''standard'', \<lparr>data = m, hvg_genes = index m, dr_pca = None\<rparr>)],
      assays = []\<rparr>"

section \<open>Auxiliary lemmas\<close>

lemma py_type_not_None [simp]: "py_type x \<noteq> NoneObj"
  by (cases x) simp_all

lemma mask_list_map: "mask_list (map p xs) xs = filter p xs"
  by (induction xs) (simp_all add: mask_list_def)

lemma mask_list_map_Not: "mask_list (map Not (map p xs)) xs = filter (\<lambda>i. \<not> p i) xs"
  by (induction xs) (simp_all add: mask_list_def)

lemma count_true_map: "count_true (map p xs) = length (filter p xs)"
  by (induction xs) (simp_all add: count_true_def)

lemma count_true_pos: "(count_true (map p xs) > 0) = list_ex p xs"
  by (simp add: count_true_map list_ex_iff filter_empty_conv)

lemma set_positions:
  "set (map (\<lambda>j. labs ! j) (positions_of labs l)) = (if l \<in> set labs then {l} else {})"
  by (auto simp: positions_of_def in_set_conv_nth)

lemma set_label_positions:
  "set (map (\<lambda>j. labs ! j) (label_positions labs ls)) = set ls \<inter> set labs"
proof -
  have "set (map (\<lambda>j. labs ! j) (label_positions labs ls)) =
        (\<Union>l\<in>set ls. set (map (\<lambda>j. labs ! j) (positions_of labs l)))"
    by (auto simp: label_positions_def)
  also have "\<dots> = set ls \<inter> set labs"
    by (subst set_positions) auto
  finally show ?thesis .
qed

lemma index_loc_rows: "set (index (loc_rows f ls)) = set ls \<inter> set (index f)"
proof -
  have "index (loc_rows f ls) = map (\<lambda>j. index f ! j) (label_positions (index f) ls)"
    by (simp add: loc_rows_def Let_def)
  then show ?thesis
    by (simp only: set_label_positions)
qed

lemma mito_split_Some:
  "list_ex p (index m) \<Longrightarrow>
   detect_mito_split p m =
     Some (loc_rows m (filter p (index m)), loc_rows m (filter (\<lambda>i. \<not> p i) (index m)))"
  by (simp add: detect_mito_split_def count_true_pos mask_list_map mask_list_map_Not Let_def
      del: map_map)

lemma mito_split_None: "\<not> list_ex p (index m) \<Longrightarrow> detect_mito_split p m = None"
  by (simp add: detect_mito_split_def count_true_pos Let_def)

lemma detect_mito_example:
  "detect_mito mito_default (dataset_of counts_mito) =
     (dataset_of counts_mito)
       \<lparr>exp_mat := \<lparr>index = [''Actb'', ''Gapdh''], columns = [''c1'', ''c2''],
                    vals = [[5, 6], [7, 8]]\<rparr>,
        exp_mito := Some \<lparr>index = [''mt-Co1'', ''mt-Nd1''], columns = [''c1'', ''c2''],
                          vals = [[1, 2], [3, 4]]\<rparr>\<rparr>"
  by (simp add: detect_mito_def detect_mito_split_def dataset_of_def counts_mito_def
      mito_default_def ascii_lower_def count_true_def mask_list_def loc_rows_def
      label_positions_def positions_of_def Let_def
      upt_rec [of _ "numeral _"] upt_rec [of 0] upt_rec [of _ "Suc _"])

lemma ERCC_locals_example:
  "detect_ERCC_spikes_locals ERCC_default counts_spike =
     (\<lparr>index = [''ERCC-00002''], columns = [''c1'', ''c2''], vals = [[1, 2]]\<rparr>,
      \<lparr>index = [''Actb''], columns = [''c1'', ''c2''], vals = [[5, 6]]\<rparr>)"
  by (simp add: detect_ERCC_spikes_locals_def counts_spike_def mask_rows_def mask_list_def
      ERCC_default_def py_space_def)

lemma scale_block_example:
  "scale_block example_externals norm_1x2 =
     Inr \<lparr>index = [''g1''], columns = [''0'', ''1''], vals = [[-1, 1]]\<rparr>"
  by (simp add: scale_block_def example_externals_def exact_numpy_def standardize_def
      norm_1x2_def transpose_frame_def col_def np_transpose_def ncols_def
      standardize_column_def np_mean_def np_std_def frame_with_index_def range_index_def
      upt_rec [of _ "numeral _"] upt_rec [of 0] upt_rec [of _ "Suc _"] Let_def)

lemma svd_example_1x2:
  "svd example_externals norm_1x2 1 =
     Inr (\<lparr>index = [''c1'', ''c2''], columns = [''0''], vals = [[1], [3]]\<rparr>,
          \<lparr>index = [''g1''], columns = [''0''], vals = [[1]]\<rparr>)"
  by (simp add: svd_def example_externals_def exact_numpy_def svd_table_def norm_1x2_def
      transpose_frame_def col_def np_transpose_def ncols_def frame_dot_def iloc_cols_def
      frame_with_index_def slice_cols_def py_take_def matmul_def dot_def range_index_def
      upt_rec [of _ "numeral _"] upt_rec [of 0] upt_rec [of _ "Suc _"] Let_def)

lemma pca_example_1x2:
  "pca example_externals (dataset_norm norm_1x2) ''svd'' None 1 False True seed =
     Inr ((dataset_norm norm_1x2)
            \<lparr>norm_data :=
               [(''standard'',
                 \<lparr>data = norm_1x2, hvg_genes = [''g1''],
                  dr_pca = Some \<lparr>comp = \<lparr>index = [''c1'', ''c2''], columns = [''0''],
                                         vals = [[1], [3]]\<rparr>,
                                 contr = \<lparr>index = [''g1''], columns = [''0''], vals = [[1]]\<rparr>,
                                 pca_method = ''svd''\<rparr>\<rparr>)],
             assays := [(''pca'', ''svd'')]\<rparr>)"
proof -
  have m: "mask_rows norm_1x2 [True] = norm_1x2"
    by (simp add: mask_rows_def mask_list_def norm_1x2_def)
  have i: "index norm_1x2 = [''g1'']"
    by (simp add: norm_1x2_def)
  show ?thesis
    by (simp add: pca_def dataset_norm_def pca_target_def i m scale_block_example
        svd_example_1x2 Let_def set_assay_def dict_set_def)
qed

lemma length_py_take: "length (py_take k xs) = py_take_len k (length xs)"
  by (auto simp: py_take_def py_take_len_def)

lemma py_take_map: "py_take k (map f xs) = map f (py_take k xs)"
  by (simp add: py_take_def take_map)

lemma py_take_upt: "py_take k [0..<n] = [0..<py_take_len k n]"
  by (simp add: py_take_def py_take_len_def min_def)

lemma nth_py_take: "j < py_take_len k (length xs) \<Longrightarrow> py_take k xs ! j = xs ! j"
  by (simp add: py_take_def py_take_len_def split: if_splits)

lemma ncols_slice: "ncols (slice_cols k v) = py_take_len k (ncols v)"
  by (cases v) (simp_all add: ncols_def slice_cols_def length_py_take py_take_len_def)

lemma col_slice:
  assumes "list_all (\<lambda>r. length r = n) v" "j < py_take_len k n"
  shows "col j (slice_cols k v) = col j v"
  using assms by (simp add: col_def slice_cols_def list_all_iff nth_py_take)

lemma ncols_rect: "list_all (\<lambda>r. length r = n) v \<Longrightarrow> v \<noteq> [] \<Longrightarrow> ncols v = n"
  by (cases v) (simp_all add: ncols_def)

text \<open>Slicing the columns of a product is the product with the sliced right factor.\<close>

lemma slice_matmul:
  assumes "list_all (\<lambda>r. length r = n) v"
  shows "slice_cols k (matmul a v) = matmul a (slice_cols k v)"
proof (cases "v = []")
  case True
  then show ?thesis
    by (simp add: slice_cols_def matmul_def ncols_def py_take_def)
next
  case False
  with assms have n: "ncols v = n" by (rule ncols_rect)
  have eq: "map (\<lambda>j. dot row (col j (slice_cols k v))) [0..<py_take_len k n] =
        map (\<lambda>j. dot row (col j v)) [0..<py_take_len k n]" for row
    using assms by (simp add: col_slice)
  have lhs: "slice_cols k (matmul a v) =
        map (\<lambda>row. map (\<lambda>j. dot row (col j v)) [0..<py_take_len k n]) a"
    by (simp add: slice_cols_def matmul_def n py_take_map py_take_upt)
  have rhs: "matmul a (slice_cols k v) =
        map (\<lambda>row. map (\<lambda>j. dot row (col j (slice_cols k v))) [0..<py_take_len k n]) a"
    by (simp add: matmul_def ncols_slice n)
  show ?thesis
    by (simp only: lhs rhs eq)
qed

lemma rect_np_transpose: "list_all (\<lambda>r. length r = length m) (np_transpose m)"
  by (simp add: np_transpose_def col_def list_all_iff)

lemma length_np_transpose: "length (np_transpose m) = ncols m"
  by (simp add: np_transpose_def)

lemma ncols_map_map: "ncols (map (map f) m) = ncols m"
  by (cases m) (simp_all add: ncols_def)

text \<open>What \<open>svd\<close> returns when the library's decomposition has as many columns as genes.\<close>

lemma svd_value:
  assumes "linalg_svd ext (vals (transpose_frame data_norm)) = Some (u, d, vh)"
      and "ncols vh = length (index data_norm)"
  shows "svd ext data_norm ncomp =
           Inr (\<lparr>index = columns data_norm,
                 columns = py_take ncomp (range_index (ncols (np_transpose vh))),
                 vals = matmul (vals (transpose_frame data_norm))
                          (slice_cols ncomp (np_transpose vh))\<rparr>,
                \<lparr>index = index data_norm,
                 columns = range_index (ncols (slice_cols ncomp (np_transpose vh))),
                 vals = map (map abs) (slice_cols ncomp (np_transpose vh))\<rparr>)"
proof -
  have s: "slice_cols ncomp (matmul a (np_transpose vh)) =
           matmul a (slice_cols ncomp (np_transpose vh))" for a
    by (rule slice_matmul [OF rect_np_transpose])
  have l: "length (slice_cols ncomp (np_transpose vh)) = length (index data_norm)"
    using assms(2) by (simp add: slice_cols_def length_np_transpose)
  show ?thesis
    using assms l
    by (simp add: svd_def Let_def frame_dot_def length_np_transpose iloc_cols_def s
        frame_with_index_def ncols_map_map transpose_frame_def)
qed






lemma index_select_columns [simp]: "index (select_columns f ls) = index f"
  by (simp add: select_columns_def Let_def)

lemma columns_mask_rows [simp]: "columns (mask_rows f bs) = columns f"
  by (simp add: mask_rows_def)


lemma length_col_sums [simp]: "length (col_sums f) = length (columns f)"
  by (simp add: col_sums_def)

lemma length_np_diag: "length (np_diag s) = length s"
  by (simp add: np_diag_def)

lemma ncols_np_diag: "ncols (np_diag s) = length s"
  by (cases s) (simp_all add: np_diag_def ncols_def upt_rec [of 0] del: upt_Suc)

lemma length_matmul: "length (matmul a b) = length a"
  by (simp add: matmul_def)

lemma ncols_matmul: "a \<noteq> [] \<Longrightarrow> ncols (matmul a b) = ncols b"
  by (cases a) (simp_all add: matmul_def ncols_def)

lemma svd_example_2x1:
  "svd example_externals norm_2x1 3 =
     Inr (\<lparr>index = [''c1''], columns = [''0'', ''1''], vals = [[- 5, 0]]\<rparr>,
          \<lparr>index = [''g1'', ''g2''], columns = [''0'', ''1''],
           vals = [[3 / 5, 4 / 5], [4 / 5, 3 / 5]]\<rparr>)"
  by (simp add: svd_def example_externals_def exact_numpy_def svd_table_def norm_2x1_def
      transpose_frame_def col_def np_transpose_def ncols_def frame_dot_def iloc_cols_def
      frame_with_index_def slice_cols_def py_take_def matmul_def dot_def range_index_def
      upt_rec [of _ "numeral _"] upt_rec [of 0] upt_rec [of _ "Suc _"] Let_def)

section \<open>Results\<close>

text \<open>
  C1. With \<open>scale=True\<close> the matrix handed to the reduction should be the
  column-standardized one. In \<open>pca\<close> the \<open>if scale:\<close> block only binds the local
  \<open>d_scaled\<close>; \<open>irlb\<close> and \<open>svd\<close> are called on \<open>data\<close>. So, once the block
  has run without raising, a pass of the loop with \<open>scale=True\<close> is the pass with
  \<open>scale=False\<close>. On the one-gene, two-cell matrix \<open>[[1, 3]]\<close> the standardized
  matrix is \<open>[[-1, 1]]\<close>, and the components stored under \<open>scale=True\<close> are the raw
  values \<open>1\<close> and \<open>3\<close>.
\<close>

theorem pca_scale_not_applied:
  "pca_target ext meth ncomp allgenes True seed k obj =
     (case map_of (norm_data obj) k of
        None \<Rightarrow> Inl (KeyError k)
      | Some item \<Rightarrow>
          (case scale_block ext
                  (if \<not> allgenes then
                     mask_rows (data item)
                       (map (\<lambda>i. i \<in> set (hvg_genes item)) (index (data item)))
                   else data item) of
             Inl e \<Rightarrow> Inl e
           | Inr d_scaled \<Rightarrow> pca_target ext meth ncomp allgenes False seed k obj))
   \<and> vals norm_1x2 = [[1, 3]]
   \<and> map_sum id vals (scale_block example_externals norm_1x2) = Inr [[- 1, 1]]
   \<and> map_sum id (\<lambda>obj'. map (\<lambda>(k, item). map_option (\<lambda>r. vals (comp r)) (dr_pca item))
                           (norm_data obj'))
        (pca example_externals (dataset_norm norm_1x2) ''svd'' None 1 False True None)
      = Inr [Some [[1], [3]]]"
proof (intro conjI)
  show "pca_target ext meth ncomp allgenes True seed k obj =
     (case map_of (norm_data obj) k of
        None \<Rightarrow> Inl (KeyError k)
      | Some item \<Rightarrow>
          (case scale_block ext
                  (if \<not> allgenes then
                     mask_rows (data item)
                       (map (\<lambda>i. i \<in> set (hvg_genes item)) (index (data item)))
                   else data item) of
             Inl e \<Rightarrow> Inl e
           | Inr d_scaled \<Rightarrow> pca_target ext meth ncomp allgenes False seed k obj))"
    by (simp add: pca_target_def Let_def split: option.splits sum.splits)
  show "vals norm_1x2 = [[1, 3]]"
    by (simp add: norm_1x2_def)
  show "map_sum id vals (scale_block example_externals norm_1x2) = Inr [[- 1, 1]]"
    by (simp add: scale_block_example)
  show "map_sum id (\<lambda>obj'. map (\<lambda>(k, item). map_option (\<lambda>r. vals (comp r)) (dr_pca item))
                           (norm_data obj'))
        (pca example_externals (dataset_norm norm_1x2) ''svd'' None 1 False True None)
      = Inr [Some [[1], [3]]]"
    by (simp add: pca_example_1x2)
qed

text \<open>
  C2. In \<open>svd\<close>, whenever the library's decomposition \<open>(U, d, Vh)\<close> of the transposed
  matrix has as many columns in \<open>Vh\<close> as there are genes, the call returns, for every
  \<open>ncomp\<close>: as components the cell-by-gene matrix times the first \<open>ncomp\<close> columns of
  \<open>V\<close> (the transpose of \<open>Vh\<close>), labelled by cell, and as contributions the absolute
  values of those columns, labelled by gene. Neither \<open>d\<close> nor the square root enters
  the result: replacing \<open>np.sqrt\<close> by any other function changes nothing.
\<close>

theorem svd_projects_unscaled:
  assumes "linalg_svd ext (vals (transpose_frame data_norm)) = Some (u, d, vh)"
      and "ncols vh = length (index data_norm)"
  shows "svd ext data_norm ncomp =
           Inr (\<lparr>index = columns data_norm,
                 columns = py_take ncomp (range_index (ncols (np_transpose vh))),
                 vals = matmul (vals (transpose_frame data_norm))
                          (slice_cols ncomp (np_transpose vh))\<rparr>,
                \<lparr>index = index data_norm,
                 columns = range_index (ncols (slice_cols ncomp (np_transpose vh))),
                 vals = map (map abs) (slice_cols ncomp (np_transpose vh))\<rparr>)
         \<and> svd (ext\<lparr>np_sqrt := f\<rparr>) data_norm ncomp = svd ext data_norm ncomp"
proof
  show "svd ext data_norm ncomp =
           Inr (\<lparr>index = columns data_norm,
                 columns = py_take ncomp (range_index (ncols (np_transpose vh))),
                 vals = matmul (vals (transpose_frame data_norm))
                          (slice_cols ncomp (np_transpose vh))\<rparr>,
                \<lparr>index = index data_norm,
                 columns = range_index (ncols (slice_cols ncomp (np_transpose vh))),
                 vals = map (map abs) (slice_cols ncomp (np_transpose vh))\<rparr>)"
    using assms by (rule svd_value)
  show "svd (ext\<lparr>np_sqrt := f\<rparr>) data_norm ncomp = svd ext data_norm ncomp"
    by (simp add: svd_def Let_def split: option.splits)
qed

text \<open>
  For the two-gene, one-cell matrix, whose transpose is \<open>[[3, 4]]\<close> with singular value
  \<open>5\<close> and first right singular vector \<open>(-3/5, -4/5)\<close>: the one component is
  \<open>3 * (-3/5) + 4 * (-4/5) = -5\<close>, not divided by anything.
\<close>

theorem svd_projects_unscaled_witness:
  "linalg_svd example_externals (vals (transpose_frame norm_2x1)) =
       Some ([[- 1]], [5], [[- (3 / 5), - (4 / 5)], [- (4 / 5), 3 / 5]])
   \<and> ncols [[- (3 / 5), - (4 / 5)], [- (4 / 5), 3 / 5 :: real]] = length (index norm_2x1)
   \<and> svd example_externals norm_2x1 1 =
       Inr (\<lparr>index = [''c1''], columns = [''0''], vals = [[- 5]]\<rparr>,
            \<lparr>index = [''g1'', ''g2''], columns = [''0''], vals = [[3 / 5], [4 / 5]]\<rparr>)"
proof -
  have h1: "linalg_svd example_externals (vals (transpose_frame norm_2x1)) =
       Some ([[- 1]], [5], [[- (3 / 5), - (4 / 5)], [- (4 / 5), 3 / 5]])"
    by (simp add: example_externals_def exact_numpy_def svd_table_def norm_2x1_def
        transpose_frame_def col_def)
  have h2: "ncols [[- (3 / 5), - (4 / 5)], [- (4 / 5), 3 / 5 :: real]] = length (index norm_2x1)"
    by (simp add: ncols_def norm_2x1_def)
  show ?thesis
    using h1 h2 svd_projects_unscaled [OF h1 h2, of 1]
    by (simp add: norm_2x1_def transpose_frame_def col_def np_transpose_def ncols_def
        slice_cols_def py_take_def matmul_def dot_def range_index_def
        upt_rec [of _ "numeral _"] upt_rec [of 0] upt_rec [of _ "Suc _"])
qed

text \<open>
  C3. \<open>auto_clean\<close> should flag the cells whose Mahalanobis distance is an outlier and
  store their identifiers. The module binds neither \<open>pd\<close> nor \<open>MinCovDet\<close>: on every
  dataset whose mitochondrial and ERCC matrices are present the call raises
  \<open>NameError\<close> when it reads \<open>pd\<close>, before any distance is computed and before
  \<open>low_quality_cells\<close> is assigned; were \<open>pd\<close> bound, reading \<open>MinCovDet\<close> would
  raise next.
\<close>

theorem auto_clean_name_error:
  "auto_clean preproc_globals ext (self\<lparr>exp_mito := Some mt, exp_ERCC := Some ercc\<rparr>)
       rRNA_genes sd_thres seed = Inl (NameError ''pd'')
   \<and> auto_clean (''pd'' # preproc_globals) ext
        (self\<lparr>exp_mito := Some mt, exp_ERCC := Some ercc\<rparr>) rRNA_genes sd_thres seed =
      Inl (NameError ''MinCovDet'')"
  by (simp add: auto_clean_def frame_sum_def Let_def preproc_globals_def)

text \<open>
  C4. After \<open>remove_empty\<close> no column should sum to zero, and the 4-gene by 5-cell
  matrix with one all-zero column should come out with 4 cells. On \<open>counts_4x5\<close> the
  zero count of a column is at most 4 and is compared with the number of cells, 5, so
  no column is dropped: the result still has 5 cells and its third column sums to zero.
\<close>

theorem remove_empty_keeps_empty_cell:
  "columns (exp_mat (remove_empty (dataset_of counts_4x5))) = [''c1'', ''c2'', ''c3'', ''c4'', ''c5'']
   \<and> length (columns (exp_mat (remove_empty (dataset_of counts_4x5)))) = 5
   \<and> col_sums (exp_mat (remove_empty (dataset_of counts_4x5))) ! 2 = 0
   \<and> exp_mat (remove_empty (dataset_of counts_4x5)) = counts_4x5"
  by (simp add: remove_empty_def dataset_of_def counts_4x5_def count_true_def col_def
      col_sums_def int64_def upt_rec [of _ "numeral _"] upt_rec [of 0])

text \<open>
  C5. A component count above \<open>min(n_genes, n_cells)\<close> should make both strategies
  fail. \<open>svd\<close> has no check on \<open>ncomp\<close>: on the two-gene, one-cell matrix with
  \<open>ncomp = 3\<close> it returns two columns and no error (the values are those of exact
  arithmetic).
\<close>

theorem svd_silently_truncates:
  "svd example_externals norm_2x1 3 =
     Inr (\<lparr>index = [''c1''], columns = [''0'', ''1''], vals = [[- 5, 0]]\<rparr>,
          \<lparr>index = [''g1'', ''g2''], columns = [''0'', ''1''],
           vals = [[3 / 5, 4 / 5], [4 / 5, 3 / 5]]\<rparr>)"
  by (rule svd_example_2x1)

text \<open>
  C5, as the code has it. Under \<open>svd\<close>, whenever the library's decomposition succeeds
  with a square \<open>Vh\<close> of the order of the number of genes, a non-negative \<open>ncomp\<close>
  never raises: components and contributions have \<open>min ncomp n_genes\<close> columns, so a
  larger \<open>ncomp\<close> is cut down silently. \<open>irlb\<close> makes no check of its own: its
  outcome depends on \<open>ncomp\<close> only through what \<open>lanczos\<close> does with it. Two calls
  on the same matrix whose \<open>lanczos\<close> outcomes agree have the same outcome; when
  \<open>lanczos\<close> returns arrays that fit together, \<open>irlb\<close> returns them as components
  \<open>V diag(s)\<close> and contributions \<open>abs U\<close>, with as many columns as \<open>lanczos\<close>
  gave; when \<open>lanczos\<close> raises, \<open>irlb\<close> raises the same.
\<close>

theorem svd_engine_no_component_check:
  "(linalg_svd ext (vals (transpose_frame data_norm)) = Some (u, d, vh) \<and>
    length vh = length (index data_norm) \<and> ncols vh = length (index data_norm) \<and>
    0 \<le> ncomp \<longrightarrow>
      (case svd ext data_norm ncomp of
         Inl e \<Rightarrow> False
       | Inr (comp1, contr1) \<Rightarrow>
           length (columns comp1) = min (nat ncomp) (length (index data_norm)) \<and>
           list_all (\<lambda>r. length r = min (nat ncomp) (length (index data_norm))) (vals comp1) \<and>
           length (columns contr1) = min (nat ncomp) (length (index data_norm)) \<and>
           list_all (\<lambda>r. length r = min (nat ncomp) (length (index data_norm))) (vals contr1)))
   \<and> (lanczos ext data_norm ncomp 1000 seed = Inl e \<longrightarrow> irlb ext data_norm ncomp seed = Inl e)
   \<and> (lanczos extA data_norm kA 1000 seedA = lanczos extB data_norm kB 1000 seedB \<longrightarrow>
        irlb extA data_norm kA seedA = irlb extB data_norm kB seedB)
   \<and> (lanczos ext data_norm k 1000 seed = Inr lanc \<and> lanc_V lanc \<noteq> [] \<and>
       ncols (lanc_V lanc) = length (lanc_s lanc) \<and>
       length (lanc_U lanc) = length (index data_norm) \<longrightarrow>
        irlb ext data_norm k seed =
          Inr (\<lparr>index = range_index (length (lanc_V lanc)),
                columns = range_index (length (lanc_s lanc)),
                vals = matmul (lanc_V lanc) (np_diag (lanc_s lanc))\<rparr>,
               \<lparr>index = index data_norm,
                columns = range_index (ncols (lanc_U lanc)),
                vals = map (map abs) (lanc_U lanc)\<rparr>))"
proof (intro conjI impI)
  assume a: "linalg_svd ext (vals (transpose_frame data_norm)) = Some (u, d, vh) \<and>
    length vh = length (index data_norm) \<and> ncols vh = length (index data_norm) \<and>
    0 \<le> ncomp"
  let ?n = "length (index data_norm)"
  let ?v = "np_transpose vh"
  have nv: "ncols ?v = ?n"
  proof (cases "?n = 0")
    case True
    with a show ?thesis by (simp add: np_transpose_def ncols_def)
  next
    case False
    with a have "?v \<noteq> []" by (simp add: np_transpose_def)
    with rect_np_transpose [of vh] have "ncols ?v = length vh" by (rule ncols_rect)
    with a show ?thesis by simp
  qed
  have len: "py_take_len ncomp ?n = min (nat ncomp) ?n"
    using a by (simp add: py_take_len_def)
  have rows: "list_all (\<lambda>r. length r = min (nat ncomp) ?n) (slice_cols ncomp ?v)"
    using a rect_np_transpose [of vh]
    by (simp add: slice_cols_def list_all_iff length_py_take len)
  have rows': "list_all (\<lambda>r. length r = min (nat ncomp) ?n) (matmul x (slice_cols ncomp ?v))"
    for x
    by (simp add: matmul_def list_all_iff ncols_slice nv len)
  from a have "linalg_svd ext (vals (transpose_frame data_norm)) = Some (u, d, vh)"
    and "ncols vh = length (index data_norm)" by simp_all
  note eq = svd_value [OF this, of ncomp]
  show "case svd ext data_norm ncomp of
         Inl e \<Rightarrow> False
       | Inr (comp1, contr1) \<Rightarrow>
           length (columns comp1) = min (nat ncomp) (length (index data_norm)) \<and>
           list_all (\<lambda>r. length r = min (nat ncomp) (length (index data_norm))) (vals comp1) \<and>
           length (columns contr1) = min (nat ncomp) (length (index data_norm)) \<and>
           list_all (\<lambda>r. length r = min (nat ncomp) (length (index data_norm))) (vals contr1)"
    using rows rows'
    by (simp add: eq length_py_take range_index_def nv len ncols_slice list_all_iff)
next
  assume "lanczos ext data_norm ncomp 1000 seed = Inl e"
  then show "irlb ext data_norm ncomp seed = Inl e"
    by (simp add: irlb_def)
next
  assume "lanczos extA data_norm kA 1000 seedA = lanczos extB data_norm kB 1000 seedB"
  then show "irlb extA data_norm kA seedA = irlb extB data_norm kB seedB"
    by (simp add: irlb_def)
next
  assume b: "lanczos ext data_norm k 1000 seed = Inr lanc \<and> lanc_V lanc \<noteq> [] \<and>
       ncols (lanc_V lanc) = length (lanc_s lanc) \<and>
       length (lanc_U lanc) = length (index data_norm)"
  then have c: "ncols (matmul (lanc_V lanc) (np_diag (lanc_s lanc))) = length (lanc_s lanc)"
    by (simp add: ncols_matmul ncols_np_diag)
  from b show "irlb ext data_norm k seed =
          Inr (\<lparr>index = range_index (length (lanc_V lanc)),
                columns = range_index (length (lanc_s lanc)),
                vals = matmul (lanc_V lanc) (np_diag (lanc_s lanc))\<rparr>,
               \<lparr>index = index data_norm,
                columns = range_index (ncols (lanc_U lanc)),
                vals = map (map abs) (lanc_U lanc)\<rparr>)"
    by (simp add: irlb_def np_dot_def length_np_diag frame_of_array_def frame_with_index_def
        c ncols_map_map length_matmul)
qed

text \<open>
  On the two-gene, one-cell matrix: \<open>svd\<close> with \<open>ncomp = 3\<close> returns two columns;
  the example's \<open>lanczos\<close> raises for 3 and for 5 components, and so does \<open>irlb\<close>;
  for one component it returns the leading triplet, which \<open>irlb\<close> hands on.
\<close>

theorem svd_engine_no_component_check_witness:
  "linalg_svd example_externals (vals (transpose_frame norm_2x1)) =
       Some ([[- 1]], [5], [[- (3 / 5), - (4 / 5)], [- (4 / 5), 3 / 5]])
   \<and> length [[- (3 / 5), - (4 / 5)], [- (4 / 5), 3 / 5 :: real]] = length (index norm_2x1)
   \<and> ncols [[- (3 / 5), - (4 / 5)], [- (4 / 5), 3 / 5 :: real]] = length (index norm_2x1)
   \<and> (0::int) \<le> 3
   \<and> (case svd example_externals norm_2x1 3 of
         Inl e \<Rightarrow> False
       | Inr (comp1, contr1) \<Rightarrow>
           length (columns comp1) = 2 \<and> list_all (\<lambda>r. length r = 2) (vals comp1) \<and>
           length (columns contr1) = 2 \<and> list_all (\<lambda>r. length r = 2) (vals contr1))
   \<and> lanczos example_externals norm_2x1 3 1000 None = Inl (ValueError ''nval'')
   \<and> irlb example_externals norm_2x1 3 None = Inl (ValueError ''nval'')
   \<and> lanczos example_externals norm_2x1 3 1000 None =
       lanczos example_externals norm_2x1 5 1000 (Some 7)
   \<and> irlb example_externals norm_2x1 3 None = irlb example_externals norm_2x1 5 (Some 7)
   \<and> lanczos example_externals norm_2x1 1 1000 None =
       Inr \<lparr>lanc_U = [[3 / 5], [4 / 5]], lanc_s = [5], lanc_V = [[1]]\<rparr>
   \<and> irlb example_externals norm_2x1 1 None =
       Inr (\<lparr>index = [''0''], columns = [''0''], vals = [[5]]\<rparr>,
            \<lparr>index = [''g1'', ''g2''], columns = [''0''], vals = [[3 / 5], [4 / 5]]\<rparr>)"
proof -
  have h1: "linalg_svd example_externals (vals (transpose_frame norm_2x1)) =
       Some ([[- 1]], [5], [[- (3 / 5), - (4 / 5)], [- (4 / 5), 3 / 5]])"
    by (simp add: example_externals_def exact_numpy_def svd_table_def norm_2x1_def
        transpose_frame_def col_def)
  have h2: "length [[- (3 / 5), - (4 / 5)], [- (4 / 5), 3 / 5 :: real]] =
        length (index norm_2x1)"
    by (simp add: norm_2x1_def)
  have h3: "ncols [[- (3 / 5), - (4 / 5)], [- (4 / 5), 3 / 5 :: real]] =
        length (index norm_2x1)"
    by (simp add: ncols_def norm_2x1_def)
  have h4: "lanczos example_externals norm_2x1 3 1000 None = Inl (ValueError ''nval'')"
    by (simp add: example_externals_def exact_numpy_def lanczos_table_def)
  have h5: "lanczos example_externals norm_2x1 5 1000 (Some 7) = Inl (ValueError ''nval'')"
    by (simp add: example_externals_def exact_numpy_def lanczos_table_def)
  have h6: "lanczos example_externals norm_2x1 1 1000 None =
       Inr \<lparr>lanc_U = [[3 / 5], [4 / 5]], lanc_s = [5], lanc_V = [[1]]\<rparr>"
    by (simp add: example_externals_def exact_numpy_def lanczos_table_def norm_2x1_def)
  have n: "length (index norm_2x1) = 2" "index norm_2x1 = [''g1'', ''g2'']"
    by (simp_all add: norm_2x1_def)
  note inst1 = svd_engine_no_component_check [where ext = example_externals
        and data_norm = norm_2x1 and u = "[[- 1]]" and d = "[5]"
        and vh = "[[- (3 / 5), - (4 / 5)], [- (4 / 5), 3 / 5]]"
        and ncomp = 3 and seed = None and e = "ValueError ''nval''"
        and extA = example_externals and extB = example_externals
        and kA = 3 and seedA = None and kB = 5 and seedB = "Some 7" and k = 1
        and lanc = "\<lparr>lanc_U = [[3 / 5], [4 / 5]], lanc_s = [5], lanc_V = [[1]]\<rparr>"]
  have t1: "case svd example_externals norm_2x1 3 of
         Inl e \<Rightarrow> False
       | Inr (comp1, contr1) \<Rightarrow>
           length (columns comp1) = 2 \<and> list_all (\<lambda>r. length r = 2) (vals comp1) \<and>
           length (columns contr1) = 2 \<and> list_all (\<lambda>r. length r = 2) (vals contr1)"
    using inst1 h1 h2 h3 by (simp add: svd_example_2x1)
  have t2: "irlb example_externals norm_2x1 3 None = Inl (ValueError ''nval'')"
    using inst1 h4 by simp
  have t5: "lanczos example_externals norm_2x1 3 1000 None =
       lanczos example_externals norm_2x1 5 1000 (Some 7)"
    using h4 h5 by simp
  have t3: "irlb example_externals norm_2x1 3 None =
        irlb example_externals norm_2x1 5 (Some 7)"
    using inst1 [THEN conjunct2, THEN conjunct2, THEN conjunct1] t5 by (rule mp)
  have t4: "irlb example_externals norm_2x1 1 None =
       Inr (\<lparr>index = [''0''], columns = [''0''], vals = [[5]]\<rparr>,
            \<lparr>index = [''g1'', ''g2''], columns = [''0''], vals = [[3 / 5], [4 / 5]]\<rparr>)"
    using inst1 h6
    by (simp add: n ncols_def range_index_def matmul_def np_diag_def dot_def col_def)
  from h1 h2 h3 h4 h6 t1 t2 t3 t4 t5 show ?thesis
    by (simp only: simp_thms)
qed

text \<open>
  C6. With a missing mitochondrial or ERCC matrix \<open>auto_clean\<close> should raise its own
  exception that names the missing step. The guards compare \<open>type(x)\<close> with \<open>None\<close>,
  which never holds, so neither guard fires: whatever the namespace and the library, a
  missing matrix makes the call fail later, at \<open>.sum\<close>, with \<open>AttributeError\<close>,
  after the read counts have been computed; and on no input at all does the call end in
  one of its own exceptions.
\<close>

theorem auto_clean_guards_never_fire:
  "auto_clean globals ext (self\<lparr>exp_mito := None\<rparr>) rRNA_genes sd_thres seed =
     Inl (AttributeError ''sum'')
   \<and> auto_clean globals ext (self\<lparr>exp_mito := Some mt, exp_ERCC := None\<rparr>)
        rRNA_genes sd_thres seed = Inl (AttributeError ''sum'')
   \<and> auto_clean preproc_globals ext (dataset_of counts_4x5) [] 3 42 =
      Inl (AttributeError ''sum'')
   \<and> auto_clean globals ext obj rRNA_genes sd_thres seed \<noteq> Inl (PyException msg)"
proof (intro conjI)
  show "auto_clean globals ext (self\<lparr>exp_mito := None\<rparr>) rRNA_genes sd_thres seed =
     Inl (AttributeError ''sum'')"
    by (simp add: auto_clean_def frame_sum_def Let_def)
  show "auto_clean globals ext (self\<lparr>exp_mito := Some mt, exp_ERCC := None\<rparr>)
        rRNA_genes sd_thres seed = Inl (AttributeError ''sum'')"
    by (simp add: auto_clean_def frame_sum_def Let_def)
  show "auto_clean preproc_globals ext (dataset_of counts_4x5) [] 3 42 =
      Inl (AttributeError ''sum'')"
    by (simp add: auto_clean_def frame_sum_def Let_def dataset_of_def)
  show "auto_clean globals ext obj rRNA_genes sd_thres seed \<noteq> Inl (PyException msg)"
    by (simp add: auto_clean_def frame_sum_def Let_def split: option.splits)
qed

text \<open>
  C7. Every pattern-based split should leave a remainder and an extracted matrix whose
  row labels are disjoint and together are those of the input. \<open>detect_mito\<close> does
  so: when a label matches, the stored remainder and the stored mitochondrial matrix
  partition the labels of the input; when none matches, the object is left as it was.
  \<open>detect_ERCC_spikes\<close> does not: it stores the remainder, the rows that do not
  match, and leaves the field \<open>exp_ERCC\<close> as it was, so the matching rows are in
  neither matrix of the dataset it returns. On the matrix with the rows
  \<open>ERCC-00002\<close> and \<open>Actb\<close> the labels after the call are \<open>Actb\<close> alone.
\<close>

theorem pattern_split_ERCC_extract_lost:
  "(if list_ex p (index (exp_mat obj))
    then (case exp_mito (detect_mito p obj) of
            None \<Rightarrow> False
          | Some mito \<Rightarrow>
              set (index (exp_mat (detect_mito p obj))) \<inter> set (index mito) = {} \<and>
              set (index (exp_mat (detect_mito p obj))) \<union> set (index mito) =
                set (index (exp_mat obj)))
    else detect_mito p obj = obj)
   \<and> index (exp_mat (detect_ERCC_spikes q obj)) = filter (\<lambda>i. \<not> q i) (index (exp_mat obj))
   \<and> exp_ERCC (detect_ERCC_spikes q obj) = exp_ERCC obj
   \<and> set (index (exp_mat (dataset_of counts_spike))) = {''ERCC-00002'', ''Actb''}
   \<and> set (index (exp_mat (detect_ERCC_spikes ERCC_default (dataset_of counts_spike)))) \<union>
       (case exp_ERCC (detect_ERCC_spikes ERCC_default (dataset_of counts_spike)) of
          None \<Rightarrow> {}
        | Some ercc \<Rightarrow> set (index ercc)) = {''Actb''}
   \<and> set (index (exp_mat (detect_ERCC_spikes ERCC_default (dataset_of counts_spike)))) \<union>
       (case exp_ERCC (detect_ERCC_spikes ERCC_default (dataset_of counts_spike)) of
          None \<Rightarrow> {}
        | Some ercc \<Rightarrow> set (index ercc)) \<noteq> set (index (exp_mat (dataset_of counts_spike)))"
proof (intro conjI)
  show "if list_ex p (index (exp_mat obj))
    then (case exp_mito (detect_mito p obj) of
            None \<Rightarrow> False
          | Some mito \<Rightarrow>
              set (index (exp_mat (detect_mito p obj))) \<inter> set (index mito) = {} \<and>
              set (index (exp_mat (detect_mito p obj))) \<union> set (index mito) =
                set (index (exp_mat obj)))
    else detect_mito p obj = obj"
  proof (cases "list_ex p (index (exp_mat obj))")
    case True
    then show ?thesis
      by (auto simp: detect_mito_def mito_split_Some index_loc_rows)
  next
    case False
    then show ?thesis
      by (simp add: detect_mito_def mito_split_None)
  qed
next
  show "index (exp_mat (detect_ERCC_spikes q obj)) = filter (\<lambda>i. \<not> q i) (index (exp_mat obj))"
    by (simp add: detect_ERCC_spikes_def detect_ERCC_spikes_locals_def Let_def mask_rows_def
        mask_list_map_Not del: map_map)
next
  show "exp_ERCC (detect_ERCC_spikes q obj) = exp_ERCC obj"
    by (simp add: detect_ERCC_spikes_def split: prod.splits)
next
  show "set (index (exp_mat (dataset_of counts_spike))) = {''ERCC-00002'', ''Actb''}"
    by (simp add: dataset_of_def counts_spike_def)
next
  have e: "exp_ERCC (detect_ERCC_spikes ERCC_default (dataset_of counts_spike)) = None"
    by (simp add: detect_ERCC_spikes_def dataset_of_def split: prod.splits)
  have m: "index (exp_mat (detect_ERCC_spikes ERCC_default (dataset_of counts_spike))) =
        [''Actb'']"
    by (simp add: detect_ERCC_spikes_def dataset_of_def ERCC_locals_example)
  show "set (index (exp_mat (detect_ERCC_spikes ERCC_default (dataset_of counts_spike)))) \<union>
       (case exp_ERCC (detect_ERCC_spikes ERCC_default (dataset_of counts_spike)) of
          None \<Rightarrow> {}
        | Some ercc \<Rightarrow> set (index ercc)) = {''Actb''}"
    by (simp add: e m)
  show "set (index (exp_mat (detect_ERCC_spikes ERCC_default (dataset_of counts_spike)))) \<union>
       (case exp_ERCC (detect_ERCC_spikes ERCC_default (dataset_of counts_spike)) of
          None \<Rightarrow> {}
        | Some ercc \<Rightarrow> set (index ercc)) \<noteq> set (index (exp_mat (dataset_of counts_spike)))"
    by (simp only: e m) (simp add: dataset_of_def counts_spike_def)
qed

text \<open>
  The scenario with the genes \<open>mt-Co1\<close>, \<open>mt-Nd1\<close>, \<open>Actb\<close>, \<open>Gapdh\<close> and the
  default pattern: the remainder is \<open>Actb\<close>, \<open>Gapdh\<close>, the extracted rows are
  \<open>mt-Co1\<close>, \<open>mt-Nd1\<close>.
\<close>

theorem pattern_split_mito_scenario:
  "list_ex mito_default (index (exp_mat (dataset_of counts_mito)))
   \<and> exp_mito (detect_mito mito_default (dataset_of counts_mito)) =
       Some \<lparr>index = [''mt-Co1'', ''mt-Nd1''], columns = [''c1'', ''c2''],
             vals = [[1, 2], [3, 4]]\<rparr>
   \<and> set (index (exp_mat (detect_mito mito_default (dataset_of counts_mito)))) \<inter>
       set [''mt-Co1'', ''mt-Nd1''] = {}
   \<and> set (index (exp_mat (detect_mito mito_default (dataset_of counts_mito)))) \<union>
       set [''mt-Co1'', ''mt-Nd1''] = set [''mt-Co1'', ''mt-Nd1'', ''Actb'', ''Gapdh'']"
  using pattern_split_ERCC_extract_lost [of mito_default "dataset_of counts_mito" ERCC_default]
  by (simp add: detect_mito_example)
     (simp add: dataset_of_def counts_mito_def mito_default_def ascii_lower_def)




text \<open>
  C9. A gene expressed in no cell should be removed under the integer threshold 0. The
  row filter runs only \<open>if minexpgenes > 0\<close>: in \<open>counts_silent_gene\<close> the gene
  \<open>g2\<close> is expressed in no cell and is still there after the call.
\<close>

theorem simple_filter_int_zero_counterexample:
  "n_expressed (vals counts_silent_gene ! 1) = 0
   \<and> index counts_silent_gene ! 1 = ''g2''
   \<and> simple_filter (dataset_of counts_silent_gene) 0 (IntT 0) =
       Inr ((dataset_of counts_silent_gene)
              \<lparr>exp_mat := \<lparr>index = [''g1'', ''g2''], columns = [''c1'', ''c2''],
                           vals = [[1, 2], [0, 0]]\<rparr>\<rparr>)"
  by (simp add: simple_filter_def dataset_of_def counts_silent_gene_def select_columns_def
      Let_def n_expressed_def col_sums_def int64_def col_def mask_list_def
      label_positions_def positions_of_def
      upt_rec [of _ "numeral _"] upt_rec [of 0] upt_rec [of _ "Suc _"])

text \<open>
  C9, as the code has it. With the integer threshold 0 the call returns and only the
  cell filter is applied: the row labels are those of the input, and a gene expressed in
  no cell stays in the matrix.
\<close>

theorem simple_filter_int_zero_keeps_gene:
  "simple_filter obj minreads (IntT 0) =
     Inr (obj\<lparr>exp_mat := select_columns (exp_mat obj)
                 (mask_list (map (\<lambda>c. c > minreads) (col_sums (exp_mat obj)))
                    (columns (exp_mat obj)))\<rparr>)
   \<and> map_sum id (\<lambda>obj'. index (exp_mat obj')) (simple_filter obj minreads (IntT 0)) =
       Inr (index (exp_mat obj))
   \<and> (i < length (index (exp_mat obj)) \<and> n_expressed (vals (exp_mat obj) ! i) = 0 \<longrightarrow>
        (case simple_filter obj minreads (IntT 0) of
           Inl e \<Rightarrow> False
         | Inr obj' \<Rightarrow> index (exp_mat obj) ! i \<in> set (index (exp_mat obj'))))"
  by (simp add: simple_filter_def Let_def)

text \<open>In \<open>counts_silent_gene\<close> the gene at position 1, \<open>g2\<close>, is expressed in no cell.\<close>

theorem simple_filter_int_zero_keeps_gene_witness:
  "(1::nat) < length (index (exp_mat (dataset_of counts_silent_gene)))
   \<and> n_expressed (vals (exp_mat (dataset_of counts_silent_gene)) ! 1) = 0
   \<and> index (exp_mat (dataset_of counts_silent_gene)) ! 1 = ''g2''
   \<and> (case simple_filter (dataset_of counts_silent_gene) 0 (IntT 0) of
         Inl e \<Rightarrow> False
       | Inr obj' \<Rightarrow> ''g2'' \<in> set (index (exp_mat obj')))"
proof -
  have h: "(1::nat) < length (index (exp_mat (dataset_of counts_silent_gene)))"
    "n_expressed (vals (exp_mat (dataset_of counts_silent_gene)) ! 1) = 0"
    "index (exp_mat (dataset_of counts_silent_gene)) ! 1 = ''g2''"
    by (simp_all add: dataset_of_def counts_silent_gene_def n_expressed_def)
  show ?thesis
    using h simple_filter_int_zero_keeps_gene [of "dataset_of counts_silent_gene" 0 1]
    by (auto simp: dataset_of_def counts_silent_gene_def split: sum.splits)
qed

text \<open>
  C10. After \<open>detect_ERCC_spikes\<close> the dataset's ERCC field should hold the extracted
  spike-in rows. The function assigns \<open>obj.exp_mat\<close> only: the field \<open>exp_ERCC\<close> is
  what it was before the call, on every dataset. On a matrix with the rows
  \<open>ERCC-00002\<close> and \<open>Actb\<close> the spike-in row leaves the expression matrix and
  \<open>exp_ERCC\<close> is still \<open>None\<close>.
\<close>

theorem detect_ERCC_spikes_drops_spikes:
  "exp_ERCC (detect_ERCC_spikes p obj) = exp_ERCC obj
   \<and> index (fst (detect_ERCC_spikes_locals ERCC_default counts_spike)) = [''ERCC-00002'']
   \<and> index (exp_mat (detect_ERCC_spikes ERCC_default (dataset_of counts_spike))) = [''Actb'']
   \<and> exp_ERCC (detect_ERCC_spikes ERCC_default (dataset_of counts_spike)) = None"
proof (intro conjI)
  show "exp_ERCC (detect_ERCC_spikes p obj) = exp_ERCC obj"
    by (simp add: detect_ERCC_spikes_def split: prod.splits)
  show "index (fst (detect_ERCC_spikes_locals ERCC_default counts_spike)) = [''ERCC-00002'']"
    by (simp add: ERCC_locals_example)
  show "index (exp_mat (detect_ERCC_spikes ERCC_default (dataset_of counts_spike))) = [''Actb'']"
    by (simp add: detect_ERCC_spikes_def dataset_of_def ERCC_locals_example)
  show "exp_ERCC (detect_ERCC_spikes ERCC_default (dataset_of counts_spike)) = None"
    by (simp add: detect_ERCC_spikes_def dataset_of_def split: prod.splits)
qed

end
